theory Spec2Isabelle
  imports Complex_Main "HOL-Library.Word" "HOL-Library.Signed_Division" "HOL-Library.Log_Nat"
begin

section \<open>Data model of the statistics engine (main.go)\<close>

text \<open>
  Go's \<^verbatim>\<open>int64\<close> is a 64-bit word: addition wraps around, comparisons are the
  signed ones (\<open><s\<close>, \<open>\<le>s\<close>). The counters (\<^verbatim>\<open>Count\<close>, the histogram buckets and
  \<^verbatim>\<open>total\<close>) are Go \<^verbatim>\<open>int\<close>s that only ever grow by one per sample from zero; they
  are natural numbers here.
\<close>

type_synonym int64 = "64 word"

text \<open>
  The fields \<^verbatim>\<open>Min\<close>, \<^verbatim>\<open>Max\<close> and \<^verbatim>\<open>Total\<close> carry the suffix \<open>_w\<close>, the histogram's
  \<^verbatim>\<open>total\<close> the suffix \<open>_h\<close>: the plain names are constants of HOL.
\<close>

text \<open>\<^verbatim>\<open>type Window struct { Min, Max, Total int64; Count int }\<close>\<close>

record Window =
  Min_w :: int64
  Max_w :: int64
  Total_w :: int64
  Count :: nat

text \<open>The zero value \<^verbatim>\<open>Window{}\<close>.\<close>

definition Window_zero :: Window where
  "Window_zero = \<lparr>Min_w = 0, Max_w = 0, Total_w = 0, Count = 0\<rparr>"

text \<open>
  \<^verbatim>\<open>
  func (w *Window) Update(duration int64) {
      if w.Min == 0 || duration < w.Min { w.Min = duration }
      if duration > w.Max { w.Max = duration }
      w.Total += duration
      w.Count++
  }
  \<close>
\<close>

definition Window_Update :: "int64 \<Rightarrow> Window \<Rightarrow> Window" where
  "Window_Update duration w =
     (let w1 = (if Min_w w = 0 \<or> duration <s Min_w w then w\<lparr>Min_w := duration\<rparr> else w);
          w2 = (if Max_w w1 <s duration then w1\<lparr>Max_w := duration\<rparr> else w1);
          w3 = w2\<lparr>Total_w := Total_w w2 + duration\<rparr>
      in w3\<lparr>Count := Suc (Count w3)\<rparr>)"

text \<open>\<^verbatim>\<open>func (w *Window) Reset()\<close> sets the four fields to zero.\<close>

definition Window_Reset :: "Window \<Rightarrow> Window" where
  "Window_Reset w = w\<lparr>Min_w := 0, Max_w := 0, Total_w := 0, Count := 0\<rparr>"

text \<open>
  \<^verbatim>\<open>
  func (w *Window) Average() int {
      if w.Count == 0 { return 0 }
      return int(w.Total) / w.Count
  }
  \<close>
  Go's integer division truncates towards zero (\<open>sdiv\<close>).
\<close>

definition Window_Average :: "Window \<Rightarrow> int" where
  "Window_Average w = (if Count w = 0 then 0 else sint (Total_w w) sdiv int (Count w))"

text \<open>A run of \<^verbatim>\<open>Update\<close> calls, first value first.\<close>

definition Window_Updates :: "int64 list \<Rightarrow> Window \<Rightarrow> Window" where
  "Window_Updates ds w = fold Window_Update ds w"

text \<open>A run of \<^verbatim>\<open>Update\<close> and \<^verbatim>\<open>Reset\<close> calls on one window.\<close>

datatype window_call = Update int64 | Reset

fun Window_call :: "window_call \<Rightarrow> Window \<Rightarrow> Window" where
  "Window_call (Update d) w = Window_Update d w"
| "Window_call Reset w = Window_Reset w"

definition Window_calls :: "window_call list \<Rightarrow> Window \<Rightarrow> Window" where
  "Window_calls cs w = fold Window_call cs w"

text \<open>The values passed to \<^verbatim>\<open>Update\<close> after the last \<^verbatim>\<open>Reset\<close> of a run of calls.\<close>

fun since_reset :: "window_call list \<Rightarrow> int64 list \<Rightarrow> int64 list" where
  "since_reset [] acc = acc"
| "since_reset (Update d # cs) acc = since_reset cs (acc @ [d])"
| "since_reset (Reset # cs) acc = since_reset cs []"


subsection \<open>Histogram\<close>

text \<open>
  \<^verbatim>\<open>
  type Histogram struct { thresholds []int64; buckets []int; total int }

  func NewHistogram(thresholds []int64) Histogram {
      return Histogram{thresholds: thresholds, buckets: make([]int, len(thresholds))}
  }
  \<close>
\<close>

record Histogram =
  thresholds :: "int64 list"
  buckets :: "nat list"
  total_h :: nat

definition NewHistogram :: "int64 list \<Rightarrow> Histogram" where
  "NewHistogram ts = \<lparr>thresholds = ts, buckets = replicate (length ts) 0, total_h = 0\<rparr>"

text \<open>Indexing a slice out of range panics; a panic ends the program.\<close>

datatype panic = IndexOutOfRange

text \<open>
  \<^verbatim>\<open>
  func (h *Histogram) Update(duration int64) {
      for i, threshold := range h.thresholds {
          if duration <= threshold { h.buckets[i]++; break }
      }
      h.total++
  }
  \<close>
  The loop, from index \<open>i\<close> on, over the thresholds not yet visited.
\<close>

fun Histogram_Update_loop :: "int64 \<Rightarrow> nat \<Rightarrow> int64 list \<Rightarrow> nat list \<Rightarrow> panic + nat list" where
  "Histogram_Update_loop duration i [] bs = Inr bs"
| "Histogram_Update_loop duration i (threshold # ts) bs =
     (if duration \<le>s threshold
      then (if i < length bs then Inr (bs[i := Suc (bs ! i)]) else Inl IndexOutOfRange)
      else Histogram_Update_loop duration (Suc i) ts bs)"

definition Histogram_Update :: "int64 \<Rightarrow> Histogram \<Rightarrow> panic + Histogram" where
  "Histogram_Update duration h =
     (case Histogram_Update_loop duration 0 (thresholds h) (buckets h) of
        Inl p \<Rightarrow> Inl p
      | Inr bs \<Rightarrow> Inr (h\<lparr>buckets := bs, total_h := Suc (total_h h)\<rparr>))"

text \<open>A run of \<^verbatim>\<open>Update\<close> calls on one histogram; the first panic ends it.\<close>

fun Histogram_Updates :: "int64 list \<Rightarrow> Histogram \<Rightarrow> panic + Histogram" where
  "Histogram_Updates [] h = Inr h"
| "Histogram_Updates (d # ds) h =
     (case Histogram_Update d h of Inl p \<Rightarrow> Inl p | Inr h' \<Rightarrow> Histogram_Updates ds h')"

text \<open>The index of the first threshold, in the order of the slice, that \<open>d\<close> is \<open>\<le>\<close>.\<close>

fun first_bucket :: "int64 \<Rightarrow> int64 list \<Rightarrow> nat option" where
  "first_bucket d [] = None"
| "first_bucket d (t # ts) =
     (if d \<le>s t then Some 0 else map_option Suc (first_bucket d ts))"

subsection \<open>Time\<close>

text \<open>
  A \<^verbatim>\<open>time.Time\<close> is a reading of the clock, in nanoseconds; a \<^verbatim>\<open>time.Duration\<close> is an
  \<^verbatim>\<open>int64\<close> of nanoseconds. \<^verbatim>\<open>t.Sub(u)\<close> saturates at the least and the greatest
  \<^verbatim>\<open>Duration\<close>.
\<close>

type_synonym Time = int
type_synonym Duration = int64

definition minDuration :: Duration where
  "minDuration = word_of_int (- (2 ^ 63))"

definition maxDuration :: Duration where
  "maxDuration = word_of_int (2 ^ 63 - 1)"

definition Time_Sub :: "Time \<Rightarrow> Time \<Rightarrow> Duration" where
  "Time_Sub t u =
     (let d = t - u
      in if d < - (2 ^ 63) then minDuration
         else if 2 ^ 63 - 1 < d then maxDuration
         else word_of_int d)"

text \<open>
  A \<^verbatim>\<open>float64\<close> is the real number it stands for. The result of an operation on
  \<^verbatim>\<open>float64\<close>s is the exact result rounded to the nearest number with a mantissa of 53
  bits, to the one with an even mantissa when two are as near (\<open>round64\<close>); \<open>float_exp x\<close>
  is the exponent of \<open>x\<close>, the \<open>e\<close> with \<open>2\<^sup>e \<le> \<bar>x\<bar> < 2\<^sup>e\<^sup>+\<^sup>1\<close>. The numbers met here are
  zero or lie between \<open>10\<^sup>-\<^sup>9\<close> and \<open>10\<^sup>1\<^sup>0\<close>, far from the least and the greatest
  \<^verbatim>\<open>float64\<close>.
\<close>

definition float_exp :: "real \<Rightarrow> int" where
  "float_exp x =
     (let a = \<bar>x\<bar>
      in if 1 \<le> a then bitlen \<lfloor>a\<rfloor> - 1
         else (let k = bitlen \<lfloor>1 / a\<rfloor> - 1
               in if a * 2 powi k = 1 then - k else - k - 1))"

definition round_half_even :: "real \<Rightarrow> int" where
  "round_half_even y =
     (let n = \<lfloor>y\<rfloor>; r = y - of_int n
      in if r < 1 / 2 then n
         else if 1 / 2 < r then n + 1
         else if even n then n else n + 1)"

definition round64 :: "real \<Rightarrow> real" where
  "round64 x =
     (if x = 0 then 0
      else (let e = float_exp x - 52
            in of_int (round_half_even (x / 2 powi e)) * 2 powi e))"

text \<open>
  \<^verbatim>\<open>
  func (d Duration) Seconds() float64 {
      sec := d / Second
      nsec := d % Second
      return float64(sec) + float64(nsec)/1e9
  }
  \<close>
  Two conversions, a division and an addition, each rounded.
\<close>

definition Duration_Seconds :: "Duration \<Rightarrow> real" where
  "Duration_Seconds d =
     (let sec = sint d sdiv 1000000000;
          nsec = sint d smod 1000000000
      in round64 (round64 (real_of_int sec) + round64 (round64 (real_of_int nsec) / 1000000000)))"

text \<open>\<^verbatim>\<open>func (d Duration) Milliseconds() int64 { return int64(d) / 1e6 }\<close>\<close>

definition Duration_Milliseconds :: "Duration \<Rightarrow> int64" where
  "Duration_Milliseconds d = word_of_int (sint d sdiv 1000000)"

subsection \<open>Stats\<close>

text \<open>
  \<^verbatim>\<open>
  type Stats struct {
      windowSize  time.Duration
      windowStart time.Time
      window      Window
      lastWindow  Window
      totals      Window
      histogram   Histogram
  }
  \<close>
\<close>

record Stats =
  windowSize :: Duration
  windowStart :: Time
  window :: Window
  lastWindow :: Window
  totals :: Window
  histogram :: Histogram

text \<open>
  The test of \<^verbatim>\<open>Stats.Update\<close>:
  \<^verbatim>\<open>time.Now().Sub(s.windowStart).Seconds() > s.windowSize.Seconds()\<close>,
  with \<open>now\<close> the clock's reading.
\<close>

definition window_elapsed :: "Time \<Rightarrow> Stats \<Rightarrow> bool" where
  "window_elapsed now s \<longleftrightarrow>
     Duration_Seconds (Time_Sub now (windowStart s)) > Duration_Seconds (windowSize s)"

text \<open>
  \<^verbatim>\<open>
  func (s *Stats) Update(duration int64) {
      s.window.Update(duration)
      s.totals.Update(duration)
      s.histogram.Update(duration)

      if time.Now().Sub(s.windowStart).Seconds() > s.windowSize.Seconds() {
          s.lastWindow = s.window
          s.window.Reset()
          s.windowStart = time.Now()
      }
  }
  \<close>
  The clock is read twice: \<open>now1\<close> in the test, \<open>now2\<close> in the assignment.
\<close>

definition Stats_Update :: "Time \<Rightarrow> Time \<Rightarrow> int64 \<Rightarrow> Stats \<Rightarrow> panic + Stats" where
  "Stats_Update now1 now2 duration s =
     (let s1 = s\<lparr>window := Window_Update duration (window s)\<rparr>;
          s2 = s1\<lparr>totals := Window_Update duration (totals s1)\<rparr>
      in case Histogram_Update duration (histogram s2) of
           Inl p \<Rightarrow> Inl p
         | Inr h \<Rightarrow>
             (let s3 = s2\<lparr>histogram := h\<rparr>
              in if window_elapsed now1 s3
                 then (let s4 = s3\<lparr>lastWindow := window s3\<rparr>;
                           s5 = s4\<lparr>window := Window_Reset (window s4)\<rparr>
                       in Inr (s5\<lparr>windowStart := now2\<rparr>))
                 else Inr s3))"

text \<open>\<^verbatim>\<open>fmt.Sprintf("%d", n)\<close>: the decimal digits, with a minus sign below zero.\<close>

definition digit_char :: "nat \<Rightarrow> char" where
  "digit_char n = char_of (48 + n)"

function show_nat :: "nat \<Rightarrow> string" where
  "show_nat n = (if n < 10 then [digit_char n] else show_nat (n div 10) @ [digit_char (n mod 10)])"
  by pat_completeness auto
termination
  by (relation "measure id") auto

definition show_int :: "int \<Rightarrow> string" where
  "show_int k = (if k < 0 then CHR ''-'' # show_nat (nat (- k)) else show_nat (nat k))"

text \<open>
  \<^verbatim>\<open>
  func (w *Window) String() string {
      return fmt.Sprintf("Min: %dms, Max: %dms, Avg: %dms", w.Min, w.Max, w.Average())
  }

  func (s *Stats) String() string {
      return fmt.Sprintf("Window - %s\nTotals - %s", s.lastWindow.String(), s.totals.String())
  }
  \<close>
  Both have a pointer receiver: they return the text and the receiver as they leave it.
\<close>

definition Window_String :: "Window \<Rightarrow> string \<times> Window" where
  "Window_String w =
     (''Min: '' @ show_int (sint (Min_w w)) @ ''ms, Max: '' @ show_int (sint (Max_w w))
        @ ''ms, Avg: '' @ show_int (Window_Average w) @ ''ms'', w)"

definition Stats_String :: "Stats \<Rightarrow> string \<times> Stats" where
  "Stats_String s =
     (let (last_text, lw) = Window_String (lastWindow s);
          s1 = s\<lparr>lastWindow := lw\<rparr>;
          (totals_text, tw) = Window_String (totals s1);
          s2 = s1\<lparr>totals := tw\<rparr>
      in (''Window - '' @ last_text @ [CHR 0x0A] @ ''Totals - '' @ totals_text, s2))"

text \<open>
  The calls the consumer makes on the engine, each at the clock's readings of its moment:
  \<^verbatim>\<open>Update\<close> with a sample, or \<^verbatim>\<open>String\<close> for the view.
\<close>

datatype engine_call = CallUpdate int64 | CallString

fun engine_step :: "Time \<times> Time \<times> engine_call \<Rightarrow> Stats \<Rightarrow> panic + Stats" where
  "engine_step (now1, now2, CallUpdate d) s = Stats_Update now1 now2 d s"
| "engine_step (now1, now2, CallString) s = Inr (snd (Stats_String s))"

fun engine_calls :: "(Time \<times> Time \<times> engine_call) list \<Rightarrow> Stats \<Rightarrow> panic + Stats" where
  "engine_calls [] s = Inr s"
| "engine_calls (c # cs) s =
     (case engine_step c s of Inl p \<Rightarrow> Inl p | Inr s' \<Rightarrow> engine_calls cs s')"

subsection \<open>The consumer\<close>

text \<open>
  \<^verbatim>\<open>
  func test(ctx context.Context, host string, interval int, window int64) error {
      model := model{ ...
          stats: Stats{
              windowSize:  time.Duration(window) * time.Second,
              windowStart: time.Now(),
              window: Window{}, lastWindow: Window{}, totals: Window{},
              histogram: NewHistogram([]int64{1, 2, 5, 10, 20, 50, 100, 200, 500, 1000}),
          },
      }
  \<close>
\<close>

definition default_thresholds :: "int64 list" where
  "default_thresholds = [1, 2, 5, 10, 20, 50, 100, 200, 500, 1000]"

definition Stats_init :: "int64 \<Rightarrow> Time \<Rightarrow> Stats" where
  "Stats_init window_flag now =
     \<lparr>windowSize = window_flag * 1000000000, windowStart = now,
      window = Window_zero, lastWindow = Window_zero, totals = Window_zero,
      histogram = NewHistogram default_thresholds\<rparr>"

text \<open>
  The messages \<^verbatim>\<open>model.Update\<close> tells apart, the commands it returns, and the fields of
  \<^verbatim>\<open>model\<close> it touches (a channel is a handle, \<open>None\<close> for \<^verbatim>\<open>nil\<close>).
\<close>

datatype Msg = KeyMsg string | InitParams nat nat | DurationMsg Duration | ErrorMsg string | OtherMsg

datatype Cmd = Quit | Tick | NoCmd

record model =
  host :: string
  interval :: int
  pings :: "nat option"
  errs :: "nat option"
  stats :: Stats

text \<open>
  \<^verbatim>\<open>
  func (m model) Update(msg tea.Msg) (tea.Model, tea.Cmd) {
      switch msg := msg.(type) {
      case tea.KeyMsg:
          if msg.String() == "q" || msg.String() == "esc" || msg.String() == "ctrl+c" {
              return m, tea.Quit
          }
      case initParams:
          m.pings = msg.pings
          m.errs = msg.errs
          return m, m.tick
      case time.Duration:
          m.stats.Update(msg.Milliseconds())
          return m, m.tick
      case error:
          return m, tea.Quit
      }
      return m, nil
  }
  \<close>
\<close>

fun model_Update :: "Time \<Rightarrow> Time \<Rightarrow> Msg \<Rightarrow> model \<Rightarrow> panic + model \<times> Cmd" where
  "model_Update now1 now2 (KeyMsg k) m =
     (if k = ''q'' \<or> k = ''esc'' \<or> k = ''ctrl+c'' then Inr (m, Quit) else Inr (m, NoCmd))"
| "model_Update now1 now2 (InitParams p e) m = Inr (m\<lparr>pings := Some p, errs := Some e\<rparr>, Tick)"
| "model_Update now1 now2 (DurationMsg d) m =
     (case Stats_Update now1 now2 (Duration_Milliseconds d) (stats m) of
        Inl p \<Rightarrow> Inl p
      | Inr s \<Rightarrow> Inr (m\<lparr>stats := s\<rparr>, Tick))"
| "model_Update now1 now2 (ErrorMsg e) m = Inr (m, Quit)"
| "model_Update now1 now2 OtherMsg m = Inr (m, NoCmd)"

subsection \<open>Invariant of a window\<close>

text \<open>
  What holds of a window and the values \<open>vs\<close> it was updated with since it was last
  empty.
\<close>

definition window_inv :: "Window \<Rightarrow> int64 list \<Rightarrow> bool" where
  "window_inv w vs \<longleftrightarrow>
     Count w = length vs \<and> (vs = [] \<longrightarrow> Min_w w = 0 \<and> Max_w w = 0)
     \<and> Min_w w \<le>s Max_w w \<and> Total_w w = sum_list vs"

subsection \<open>Samples that fall in a bucket\<close>

text \<open>A sample is counted in a bucket when some threshold is at least the sample.\<close>

definition in_a_bucket :: "int64 list \<Rightarrow> int64 \<Rightarrow> bool" where
  "in_a_bucket ts d \<longleftrightarrow> first_bucket d ts \<noteq> None"

section \<open>The parser (pkg/ping/ping.go)\<close>

subsection \<open>The pattern \<^verbatim>\<open>PING_LINE\<close>\<close>

text \<open>
  A line is a \<open>string\<close>, one \<open>char\<close> for each character of the text. The pattern is
  \<^verbatim>\<open>^\d+ bytes from \d+.\d+.\d+.\d+: icmp_seq=\d+ ttl=\d+ time=(\d+.\d+) ms$\<close>:
  a sequence of literal characters, of \<^verbatim>\<open>\d+\<close> (one or more of \<^verbatim>\<open>0\<close> to \<^verbatim>\<open>9\<close>), of \<^verbatim>\<open>.\<close>
  (any one character but a line feed) and of the brackets of its one group, anchored at
  both ends of the text.
\<close>

datatype atom = Lit char | AnyChar | Digits | GroupOpen | GroupClose

definition is_digit :: "char \<Rightarrow> bool" where
  "is_digit c \<longleftrightarrow> 48 \<le> (of_char c :: nat) \<and> (of_char c :: nat) \<le> 57"

definition digit_value :: "char \<Rightarrow> nat" where
  "digit_value c = of_char c - 48"

definition PING_LINE :: "atom list" where
  "PING_LINE =
     [Digits] @ map Lit '' bytes from '' @ [Digits, AnyChar, Digits, AnyChar, Digits, AnyChar, Digits]
     @ map Lit '': icmp_seq='' @ [Digits] @ map Lit '' ttl='' @ [Digits] @ map Lit '' time=''
     @ [GroupOpen, Digits, AnyChar, Digits, GroupClose] @ map Lit '' ms''"

text \<open>
  Matching a pattern against the whole of a text, by backtracking with the longer run of
  digits tried first (the preference of \<^verbatim>\<open>regexp\<close> for \<^verbatim>\<open>\d+\<close>). The result is the text of
  the group; \<open>cap\<close> is the part of it read so far and \<open>inside\<close> tells whether the group is
  open.
\<close>

fun rx_match :: "atom list \<Rightarrow> string \<Rightarrow> string \<Rightarrow> bool \<Rightarrow> string option" where
  "rx_match [] s cap inside = (if s = [] then Some cap else None)"
| "rx_match (GroupOpen # p) s cap inside = rx_match p s [] True"
| "rx_match (GroupClose # p) s cap inside = rx_match p s cap False"
| "rx_match (Lit c # p) [] cap inside = None"
| "rx_match (Lit c # p) (x # s) cap inside =
     (if x = c then rx_match p s (if inside then cap @ [x] else cap) inside else None)"
| "rx_match (AnyChar # p) [] cap inside = None"
| "rx_match (AnyChar # p) (x # s) cap inside =
     (if x \<noteq> CHR 0x0A then rx_match p s (if inside then cap @ [x] else cap) inside else None)"
| "rx_match (Digits # p) [] cap inside = None"
| "rx_match (Digits # p) (x # s) cap inside =
     (if is_digit x
      then (case rx_match (Digits # p) s (if inside then cap @ [x] else cap) inside of
              Some g \<Rightarrow> Some g
            | None \<Rightarrow> rx_match p s (if inside then cap @ [x] else cap) inside)
      else None)"

text \<open>
  \<^verbatim>\<open>re.FindStringSubmatch(line)\<close> for a pattern with one group: \<^verbatim>\<open>nil\<close> (\<open>None\<close>) when the
  line does not match, else the whole match and the text of the group.
\<close>

definition FindStringSubmatch :: "atom list \<Rightarrow> string \<Rightarrow> string list option" where
  "FindStringSubmatch re line = map_option (\<lambda>g. [line, g]) (rx_match re line [] False)"

subsection \<open>\<^verbatim>\<open>time.ParseDuration\<close>\<close>

text \<open>
  The function of Go's library, on \<^verbatim>\<open>uint64\<close> values below \<open>2\<^sup>6\<^sup>4\<close>. Its one \<^verbatim>\<open>float64\<close>
  expression, \<^verbatim>\<open>uint64(float64(f) * (float64(unit) / scale))\<close>, is the parameter \<open>fl\<close>,
  applied to \<open>f\<close>, \<open>unit\<close> and the power of ten that \<^verbatim>\<open>scale\<close> stands for.
\<close>

datatype parse_error = FailedToParseLine | InvalidDuration | MissingUnit | UnknownUnit

text \<open>
  \<^verbatim>\<open>
  func leadingInt(s string) (x uint64, rem string, err error) {
      i := 0
      for ; i < len(s); i++ {
          c := s[i]
          if c < '0' || c > '9' { break }
          if x > 1<<63/10 { return 0, rem, errLeadingInt }
          x = x*10 + uint64(c) - '0'
          if x > 1<<63 { return 0, rem, errLeadingInt }
      }
      return x, s[i:], nil
  }
  \<close>
\<close>

fun leadingInt :: "nat \<Rightarrow> string \<Rightarrow> (nat \<times> string) option" where
  "leadingInt x [] = Some (x, [])"
| "leadingInt x (c # s) =
     (if \<not> is_digit c then Some (x, c # s)
      else if x > 2 ^ 63 div 10 then None
      else (let y = x * 10 + digit_value c
            in if y > 2 ^ 63 then None else leadingInt y s))"

text \<open>
  \<^verbatim>\<open>
  func leadingFraction(s string) (x uint64, scale float64, rem string) {
      i := 0
      scale = 1
      overflow := false
      for ; i < len(s); i++ {
          c := s[i]
          if c < '0' || c > '9' { break }
          if overflow { continue }
          if x > (1<<63-1)/10 { overflow = true; continue }
          y := x*10 + uint64(c) - '0'
          if y > 1<<63 { overflow = true; continue }
          x = y
          scale *= 10
      }
      return x, scale, s[i:]
  }
  \<close>
\<close>

fun leadingFraction :: "nat \<Rightarrow> nat \<Rightarrow> bool \<Rightarrow> string \<Rightarrow> nat \<times> nat \<times> string" where
  "leadingFraction x scale overflow [] = (x, scale, [])"
| "leadingFraction x scale overflow (c # s) =
     (if \<not> is_digit c then (x, scale, c # s)
      else if overflow then leadingFraction x scale overflow s
      else if x > (2 ^ 63 - 1) div 10 then leadingFraction x scale True s
      else (let y = x * 10 + digit_value c
            in if y > 2 ^ 63 then leadingFraction x scale True s
               else leadingFraction y (scale * 10) False s))"

text \<open>
  \<^verbatim>\<open>unitMap\<close>; the two spellings of the micro sign are the bytes of their UTF-8 encoding.
\<close>

definition unitMap :: "string \<Rightarrow> nat option" where
  "unitMap u =
     (if u = ''ns'' then Some 1
      else if u = ''us'' then Some 1000
      else if u = [CHR 0xC2, CHR 0xB5, CHR ''s''] then Some 1000
      else if u = [CHR 0xCE, CHR 0xBC, CHR ''s''] then Some 1000
      else if u = ''ms'' then Some 1000000
      else if u = ''s'' then Some 1000000000
      else if u = ''m'' then Some 60000000000
      else if u = ''h'' then Some 3600000000000
      else None)"

definition in_unit :: "char \<Rightarrow> bool" where
  "in_unit c \<longleftrightarrow> \<not> (c = CHR ''.'' \<or> is_digit c)"

text \<open>
  One turn of the loop \<^verbatim>\<open>for s != ""\<close> of \<^verbatim>\<open>ParseDuration\<close>, on the text \<open>c # s\<close> left: a
  number, an optional fraction and a unit. The result is the value \<^verbatim>\<open>v\<close> in nanoseconds
  and the text left.
  \<^verbatim>\<open>
      if !(s[0] == '.' || '0' <= s[0] && s[0] <= '9') { return 0, errors.New(...) }
      pl := len(s)
      v, s, err = leadingInt(s)
      if err != nil { return 0, errors.New(...) }
      pre := pl != len(s)
      post := false
      if s != "" && s[0] == '.' {
          s = s[1:]
          pl := len(s)
          f, scale, s = leadingFraction(s)
          post = pl != len(s)
      }
      if !pre && !post { return 0, errors.New(...) }
      i := 0
      for ; i < len(s); i++ {
          c := s[i]
          if c == '.' || '0' <= c && c <= '9' { break }
      }
      if i == 0 { return 0, errors.New("time: missing unit in duration " ...) }
      u := s[:i]
      s = s[i:]
      unit, ok := unitMap[u]
      if !ok { return 0, errors.New("time: unknown unit " ...) }
      if v > 1<<63/unit { return 0, errors.New(...) }
      v *= unit
      if f > 0 {
          v += uint64(float64(f) * (float64(unit) / scale))
          if v > 1<<63 { return 0, errors.New(...) }
      }
  \<close>
\<close>

definition ParseDuration_segment ::
  "(nat \<Rightarrow> nat \<Rightarrow> nat \<Rightarrow> nat) \<Rightarrow> string \<Rightarrow> parse_error + nat \<times> string" where
  "ParseDuration_segment fl s0 =
     (if \<not> (case s0 of [] \<Rightarrow> False | c # r \<Rightarrow> c = CHR ''.'' \<or> is_digit c)
      then Inl InvalidDuration
      else case leadingInt 0 s0 of
        None \<Rightarrow> Inl InvalidDuration
      | Some (v, s1) \<Rightarrow>
          (let pre = (length s0 \<noteq> length s1);
               (f, scale, post, s2) =
                 (case s1 of
                    [] \<Rightarrow> (0, 1, False, s1)
                  | c # r \<Rightarrow>
                      if c = CHR ''.''
                      then (let (f, scale, s2) = leadingFraction 0 1 False r
                            in (f, scale, length r \<noteq> length s2, s2))
                      else (0, 1, False, s1))
           in if \<not> pre \<and> \<not> post then Inl InvalidDuration
              else (let u = takeWhile in_unit s2; s3 = dropWhile in_unit s2
                    in if u = [] then Inl MissingUnit
                       else case unitMap u of
                         None \<Rightarrow> Inl UnknownUnit
                       | Some unit \<Rightarrow>
                           if v > 2 ^ 63 div unit then Inl InvalidDuration
                           else (let v1 = v * unit
                                 in if f > 0
                                    then (let v2 = (v1 + fl f unit scale mod 2 ^ 64) mod 2 ^ 64
                                          in if v2 > 2 ^ 63 then Inl InvalidDuration
                                             else Inr (v2, s3))
                                    else Inr (v1, s3)))))"

text \<open>
  The loop \<^verbatim>\<open>for s != ""\<close> with the sum \<^verbatim>\<open>d\<close> of the values read:
  \<^verbatim>\<open>
      d += v
      if d > 1<<63 { return 0, errors.New(...) }
  \<close>
\<close>

function ParseDuration_loop ::
  "(nat \<Rightarrow> nat \<Rightarrow> nat \<Rightarrow> nat) \<Rightarrow> nat \<Rightarrow> string \<Rightarrow> parse_error + nat" where
  "ParseDuration_loop fl d s =
     (if s = [] then Inr d
      else case ParseDuration_segment fl s of
        Inl e \<Rightarrow> Inl e
      | Inr (v, s') \<Rightarrow>
          (let d' = (d + v) mod 2 ^ 64
           in if d' > 2 ^ 63 then Inl InvalidDuration else ParseDuration_loop fl d' s'))"
  by pat_completeness auto
termination
proof (relation "measure (\<lambda>(fl, d, s). length s)")
  show "wf (measure (\<lambda>(fl :: nat \<Rightarrow> nat \<Rightarrow> nat \<Rightarrow> nat, d :: nat, s :: string). length s))"
    by simp
next
  fix fl :: "nat \<Rightarrow> nat \<Rightarrow> nat \<Rightarrow> nat" and d :: nat and s :: string
    and x2 :: "nat \<times> string" and v :: nat and s' :: string and d' :: nat
  assume seg: "ParseDuration_segment fl s = Inr x2" and x2: "(v, s') = x2"
  have li: "leadingInt x t = Some (w, r) \<Longrightarrow> length r \<le> length t" for x t w r
    by (induction x t rule: leadingInt.induct) (auto simp: Let_def split: if_splits)
  have lf: "leadingFraction x sc ov t = (w, sc', r) \<Longrightarrow> length r \<le> length t" for x sc ov t w sc' r
    by (induction x sc ov t rule: leadingFraction.induct) (auto simp: Let_def split: if_splits)
  have dw: "length (dropWhile in_unit t) < length t" if "takeWhile in_unit t \<noteq> []" for t
    using that by (cases t) (auto simp: less_Suc_eq_le length_dropWhile_le split: if_splits)
  from seg x2 have "length s' < length s"
    unfolding ParseDuration_segment_def
    by (auto simp: Let_def split: if_splits option.splits list.splits prod.splits
        dest!: li lf dw intro: order.strict_trans1 [OF length_dropWhile_le])
  then show "((fl, d', s'), fl, d, s) \<in> measure (\<lambda>(fl, d, s). length s)"
    by simp
qed


text \<open>
  \<^verbatim>\<open>
  func ParseDuration(s string) (Duration, error) {
      orig := s
      var d uint64
      neg := false
      if s != "" {
          c := s[0]
          if c == '-' || c == '+' { neg = c == '-'; s = s[1:] }
      }
      if s == "0" { return 0, nil }
      if s == "" { return 0, errors.New("time: invalid duration " + quote(orig)) }
      for s != "" { ... }
      if neg { return -Duration(d), nil }
      if d > 1<<63-1 { return 0, errors.New("time: invalid duration " + quote(orig)) }
      return Duration(d), nil
  }
  \<close>
\<close>

definition ParseDuration ::
  "(nat \<Rightarrow> nat \<Rightarrow> nat \<Rightarrow> nat) \<Rightarrow> string \<Rightarrow> parse_error + Duration" where
  "ParseDuration fl orig =
     (let (neg, s) =
            (case orig of
               [] \<Rightarrow> (False, orig)
             | c # r \<Rightarrow> if c = CHR ''-'' \<or> c = CHR ''+'' then (c = CHR ''-'', r) else (False, orig))
      in if s = ''0'' then Inr 0
         else if s = [] then Inl InvalidDuration
         else case ParseDuration_loop fl 0 s of
           Inl e \<Rightarrow> Inl e
         | Inr d \<Rightarrow>
             if neg then Inr (- word_of_nat d)
             else if d > 2 ^ 63 - 1 then Inl InvalidDuration
             else Inr (word_of_nat d))"

text \<open>
  The \<^verbatim>\<open>float64\<close> product where it is exact: when \<^verbatim>\<open>scale\<close> divides \<^verbatim>\<open>unit\<close>, the quotient
  and, below \<open>2\<^sup>5\<^sup>3\<close>, its product with \<open>f\<close> are whole numbers that \<^verbatim>\<open>float64\<close> holds.
\<close>

definition exact_product :: "nat \<Rightarrow> nat \<Rightarrow> nat \<Rightarrow> nat" where
  "exact_product f unit scale = f * (unit div scale)"

definition float_exact :: "(nat \<Rightarrow> nat \<Rightarrow> nat \<Rightarrow> nat) \<Rightarrow> bool" where
  "float_exact fl \<longleftrightarrow>
     (\<forall>f unit scale. scale dvd unit \<and> f * (unit div scale) < 2 ^ 53
        \<longrightarrow> fl f unit scale = f * (unit div scale))"

subsection \<open>\<^verbatim>\<open>processLine\<close> and the scanner\<close>

text \<open>
  \<^verbatim>\<open>
  func processLine(line string) (time.Duration, error) {
      matches := PING_LINE.FindStringSubmatch(line)
      if len(matches) < 2 {
          return 0, fmt.Errorf("failed to parse line: %s", line)
      }
      return time.ParseDuration(fmt.Sprintf("%sms", matches[1]))
  }
  \<close>
\<close>

definition processLine ::
  "(nat \<Rightarrow> nat \<Rightarrow> nat \<Rightarrow> nat) \<Rightarrow> string \<Rightarrow> parse_error + Duration" where
  "processLine fl line =
     (let matches = (case FindStringSubmatch PING_LINE line of None \<Rightarrow> [] | Some ms \<Rightarrow> ms)
      in if length matches < 2 then Inl FailedToParseLine
         else ParseDuration fl (matches ! 1 @ ''ms''))"

text \<open>
  The body of the scanner's loop in \<^verbatim>\<open>Pinger.Run\<close>, for one line: the sample it sends on
  \<^verbatim>\<open>pings\<close>, if it sends one.
  \<^verbatim>\<open>
      line := scanner.Text()
      if len(line) < 1 { continue }
      if strings.HasPrefix(line, "PING") { continue }
      duration, err := processLine(line)
      if err != nil { continue }
      pings <- duration
  \<close>
\<close>

definition scan_line :: "(nat \<Rightarrow> nat \<Rightarrow> nat \<Rightarrow> nat) \<Rightarrow> string \<Rightarrow> Duration option" where
  "scan_line fl line =
     (if length line < 1 then None
      else if take 4 line = ''PING'' then None
      else case processLine fl line of Inl e \<Rightarrow> None | Inr duration \<Rightarrow> Some duration)"

text \<open>
  Lines through the scanner and their samples through \<^verbatim>\<open>model.Update\<close>, each line with the
  two readings of the clock of its moment.
\<close>

fun feed_lines ::
  "(nat \<Rightarrow> nat \<Rightarrow> nat \<Rightarrow> nat) \<Rightarrow> (Time \<times> Time \<times> string) list \<Rightarrow> model \<Rightarrow> panic + model" where
  "feed_lines fl [] m = Inr m"
| "feed_lines fl ((now1, now2, line) # ls) m =
     (case scan_line fl line of
        None \<Rightarrow> feed_lines fl ls m
      | Some duration \<Rightarrow>
          (case model_Update now1 now2 (DurationMsg duration) m of
             Inl p \<Rightarrow> Inl p
           | Inr (m', cmd) \<Rightarrow> feed_lines fl ls m'))"

section \<open>Theorems\<close>

lemma Window_Update_simps:
  "Count (Window_Update d w) = Suc (Count w)"
  "Total_w (Window_Update d w) = Total_w w + d"
  "Min_w (Window_Update d w) = (if Min_w w = 0 \<or> d <s Min_w w then d else Min_w w)"
  "Max_w (Window_Update d w) = (if Max_w w <s d then d else Max_w w)"
  by (simp_all add: Window_Update_def Let_def)

subsection \<open>Window\<close>

lemma Window_Reset_eq: "Window_Reset w = Window_zero"
  by (simp add: Window_Reset_def Window_zero_def)

text \<open>
  C1. After \<^verbatim>\<open>Update\<close> with \<open>d1..dn\<close> on an empty window, \<^verbatim>\<open>Min\<close> should be the least
  of the values. \<^verbatim>\<open>Update\<close> tells an empty window by \<^verbatim>\<open>w.Min == 0\<close>, so a sample of 0 ms
  is forgotten by the next one: after the samples 0 and 5 the window holds the minimum 5,
  where the least value is 0.
\<close>

theorem Window_Update_forgets_zero_minimum:
  "Window_Updates [0, 5] Window_zero = \<lparr>Min_w = 5, Max_w = 5, Total_w = 5, Count = 2\<rparr>"
  by (simp add: Window_Updates_def Window_Update_def Window_zero_def word_sless_alt)

lemma window_inv_Update: "window_inv w vs \<Longrightarrow> window_inv (Window_Update d w) (vs @ [d])"
  by (auto simp: window_inv_def Window_Update_simps word_sle_eq word_sless_alt)

lemma window_inv_calls:
  "window_inv w vs \<Longrightarrow> window_inv (Window_calls cs w) (since_reset cs vs)"
proof (induction cs arbitrary: w vs)
  case Nil
  then show ?case by (simp add: Window_calls_def)
next
  case (Cons c cs)
  show ?case
  proof (cases c)
    case (Update d)
    from Cons.IH [OF window_inv_Update [OF Cons.prems, of d]] Update
    show ?thesis by (simp add: Window_calls_def)
  next
    case Reset
    have "window_inv (Window_Reset w) []"
      by (simp add: window_inv_def Window_Reset_def)
    from Cons.IH [OF this] Reset show ?thesis by (simp add: Window_calls_def)
  qed
qed

text \<open>
  C6. Every window reached from the empty one by \<^verbatim>\<open>Update\<close> and \<^verbatim>\<open>Reset\<close> calls has
  \<^verbatim>\<open>Min\<close>, \<^verbatim>\<open>Max\<close> and \<^verbatim>\<open>Total\<close> zero when \<^verbatim>\<open>Count\<close> is zero, \<^verbatim>\<open>Min \<le> Max\<close> when \<^verbatim>\<open>Count\<close>
  is positive, and \<^verbatim>\<open>Total\<close> the (\<^verbatim>\<open>int64\<close>) sum of the values of the updates since the last
  reset, of which \<^verbatim>\<open>Count\<close> is the number.
\<close>

theorem Window_calls_invariants:
  "(Count (Window_calls cs Window_zero) = 0 \<longrightarrow>
      Min_w (Window_calls cs Window_zero) = 0 \<and> Max_w (Window_calls cs Window_zero) = 0
      \<and> Total_w (Window_calls cs Window_zero) = 0)
   \<and> (0 < Count (Window_calls cs Window_zero) \<longrightarrow>
      Min_w (Window_calls cs Window_zero) \<le>s Max_w (Window_calls cs Window_zero))
   \<and> Total_w (Window_calls cs Window_zero) = sum_list (since_reset cs [])
   \<and> Count (Window_calls cs Window_zero) = length (since_reset cs [])"
proof -
  have "window_inv Window_zero []"
    by (simp add: window_inv_def Window_zero_def)
  from window_inv_calls [OF this, of cs] show ?thesis
    by (auto simp: window_inv_def)
qed

theorem Window_calls_invariants_witness:
  "Count (Window_calls [Update 3, Reset] Window_zero) = 0
   \<and> Min_w (Window_calls [Update 3, Reset] Window_zero) = 0
   \<and> Max_w (Window_calls [Update 3, Reset] Window_zero) = 0
   \<and> Total_w (Window_calls [Update 3, Reset] Window_zero) = 0
   \<and> 0 < Count (Window_calls [Update 3, Reset, Update 7, Update 2] Window_zero)
   \<and> Min_w (Window_calls [Update 3, Reset, Update 7, Update 2] Window_zero)
        \<le>s Max_w (Window_calls [Update 3, Reset, Update 7, Update 2] Window_zero)
   \<and> Total_w (Window_calls [Update 3, Reset, Update 7, Update 2] Window_zero) = 9"
proof -
  have c0: "Count (Window_calls [Update 3, Reset] Window_zero) = 0"
    by (simp add: Window_calls_def Window_Reset_def)
  have c1: "0 < Count (Window_calls [Update 3, Reset, Update 7, Update 2] Window_zero)"
    by (simp add: Window_calls_def Window_Update_simps)
  have s1: "sum_list (since_reset [Update 3, Reset, Update 7, Update 2] []) = (9 :: int64)"
    by simp
  show ?thesis
    using Window_calls_invariants [of "[Update 3, Reset]"]
      Window_calls_invariants [of "[Update 3, Reset, Update 7, Update 2]"] c0 c1 s1
    by simp
qed

subsection \<open>Histogram\<close>

lemma first_bucket_None: "first_bucket d ts = None \<longleftrightarrow> (\<forall>t\<in>set ts. \<not> d \<le>s t)"
  by (induction ts) auto

lemma first_bucket_Some:
  "first_bucket d ts = Some k \<Longrightarrow>
     k < length ts \<and> d \<le>s ts ! k \<and> (\<forall>j<k. \<not> d \<le>s ts ! j)"
proof (induction ts arbitrary: k)
  case Nil
  then show ?case by simp
next
  case (Cons t ts)
  show ?case
  proof (cases "d \<le>s t")
    case True
    with Cons.prems show ?thesis by simp
  next
    case False
    with Cons.prems obtain k' where k': "first_bucket d ts = Some k'" "k = Suc k'"
      by auto
    from Cons.IH [OF k'(1)] False k'(2) show ?thesis
      by (auto simp: less_Suc_eq_0_disj)
  qed
qed

lemma Histogram_Update_loop_eq:
  "i + length ts \<le> length bs \<Longrightarrow>
     Histogram_Update_loop d i ts bs =
       Inr (case first_bucket d ts of None \<Rightarrow> bs | Some k \<Rightarrow> bs[i + k := Suc (bs ! (i + k))])"
proof (induction ts arbitrary: i)
  case Nil
  then show ?case by simp
next
  case (Cons t ts)
  show ?case
  proof (cases "d \<le>s t")
    case True
    with Cons.prems show ?thesis by simp
  next
    case False
    from Cons.prems have "Suc i + length ts \<le> length bs" by simp
    from Cons.IH [OF this] False show ?thesis
      by (simp split: option.split)
  qed
qed

lemma Histogram_Update_eq:
  assumes "length (buckets h) = length (thresholds h)"
  shows "Histogram_Update d h =
     Inr (h\<lparr>buckets := (case first_bucket d (thresholds h) of None \<Rightarrow> buckets h
                          | Some k \<Rightarrow> (buckets h)[k := Suc (buckets h ! k)]),
            total_h := Suc (total_h h)\<rparr>)"
  using assms Histogram_Update_loop_eq [of 0 "thresholds h" "buckets h" d]
  by (simp add: Histogram_Update_def cong: option.case_cong)

lemma sum_list_bump: "k < length bs \<Longrightarrow> sum_list (bs[k := Suc (bs ! k)]) = Suc (sum_list bs)"
  for bs :: "nat list"
proof (induction bs arbitrary: k)
  case Nil
  then show ?case by simp
next
  case (Cons b bs)
  then show ?case by (cases k) simp_all
qed

lemma Histogram_Update_sum:
  assumes "length (buckets h) = length (thresholds h)"
  shows "\<exists>h'. Histogram_Update d h = Inr h' \<and> thresholds h' = thresholds h
            \<and> length (buckets h') = length (thresholds h')
            \<and> total_h h' = Suc (total_h h)
            \<and> sum_list (buckets h') = sum_list (buckets h) + (if in_a_bucket (thresholds h) d then 1 else 0)"
proof (cases "first_bucket d (thresholds h)")
  case None
  with Histogram_Update_eq [OF assms, of d] assms show ?thesis
    by (simp add: in_a_bucket_def)
next
  case (Some k)
  from first_bucket_Some [OF Some] assms have "k < length (buckets h)" by simp
  with Histogram_Update_eq [OF assms, of d] assms Some show ?thesis
    by (simp add: in_a_bucket_def sum_list_bump)
qed

lemma Histogram_Updates_sum:
  "length (buckets h) = length (thresholds h) \<Longrightarrow>
     \<exists>h'. Histogram_Updates ds h = Inr h' \<and> thresholds h' = thresholds h
         \<and> length (buckets h') = length (thresholds h')
         \<and> total_h h' = total_h h + length ds
         \<and> sum_list (buckets h') = sum_list (buckets h) + length (filter (in_a_bucket (thresholds h)) ds)"
proof (induction ds arbitrary: h)
  case Nil
  then show ?case by simp
next
  case (Cons d ds)
  from Histogram_Update_sum [OF Cons.prems, of d] obtain h1 where
    h1: "Histogram_Update d h = Inr h1" "thresholds h1 = thresholds h"
      "length (buckets h1) = length (thresholds h1)" "total_h h1 = Suc (total_h h)"
      "sum_list (buckets h1) = sum_list (buckets h) + (if in_a_bucket (thresholds h) d then 1 else 0)"
    by blast
  from Cons.IH [OF h1(3)] obtain h' where
    h': "Histogram_Updates ds h1 = Inr h'" "thresholds h' = thresholds h1"
      "length (buckets h') = length (thresholds h')" "total_h h' = total_h h1 + length ds"
      "sum_list (buckets h') = sum_list (buckets h1) + length (filter (in_a_bucket (thresholds h1)) ds)"
    by blast
  from h1 h' show ?case by simp
qed

lemma filter_all_iff: "length (filter P xs) = length xs \<longleftrightarrow> (\<forall>x\<in>set xs. P x)"
proof -
  have "length (filter P xs) + length (filter (\<lambda>x. \<not> P x) xs) = length xs"
    by (rule sum_length_filter_compl)
  then have "length (filter P xs) = length xs \<longleftrightarrow> filter (\<lambda>x. \<not> P x) xs = []"
    by auto
  then show ?thesis by (simp add: filter_empty_conv)
qed

lemma in_a_bucket_Max:
  assumes "ts \<noteq> []"
  shows "in_a_bucket ts d \<longleftrightarrow> sint d \<le> Max (sint ` set ts)"
proof -
  have "in_a_bucket ts d \<longleftrightarrow> (\<exists>t\<in>set ts. sint d \<le> sint t)"
    by (auto simp: in_a_bucket_def first_bucket_None word_sle_eq)
  also have "\<dots> \<longleftrightarrow> sint d \<le> Max (sint ` set ts)"
    using assms by (subst Max_ge_iff) auto
  finally show ?thesis .
qed

text \<open>
  C3. On a histogram with one bucket per threshold, \<^verbatim>\<open>Update\<close> with a sample \<open>d\<close> adds one to
  \<^verbatim>\<open>total\<close> and to exactly one bucket, that of the first threshold of the slice with
  \<open>d \<le> threshold\<close> (so a sample equal to a threshold is counted there), or to no bucket
  when \<open>d\<close> exceeds every threshold. After any run of updates on a new histogram, the
  buckets sum to at most \<^verbatim>\<open>total\<close>, and to \<^verbatim>\<open>total\<close> exactly when every sample is at
  most the largest threshold.
\<close>

theorem Histogram_Update_first_bucket:
  assumes "length (buckets h) = length (thresholds h)"
  shows "(\<exists>h'. Histogram_Update d h = Inr h' \<and> thresholds h' = thresholds h
            \<and> total_h h' = Suc (total_h h)
            \<and> (case first_bucket d (thresholds h) of
                  None \<Rightarrow> (\<forall>t\<in>set (thresholds h). \<not> d \<le>s t) \<and> buckets h' = buckets h
                | Some k \<Rightarrow> k < length (thresholds h) \<and> d \<le>s thresholds h ! k
                    \<and> (\<forall>j<k. \<not> d \<le>s thresholds h ! j)
                    \<and> buckets h' = (buckets h)[k := Suc (buckets h ! k)]))
     \<and> (\<exists>h'. Histogram_Updates ds (NewHistogram ts) = Inr h' \<and> total_h h' = length ds
            \<and> sum_list (buckets h') \<le> total_h h'
            \<and> (ts \<noteq> [] \<longrightarrow>
                 (sum_list (buckets h') = total_h h' \<longleftrightarrow>
                    (\<forall>d\<in>set ds. sint d \<le> Max (sint ` set ts)))))"
proof
  show "\<exists>h'. Histogram_Update d h = Inr h' \<and> thresholds h' = thresholds h
            \<and> total_h h' = Suc (total_h h)
            \<and> (case first_bucket d (thresholds h) of
                  None \<Rightarrow> (\<forall>t\<in>set (thresholds h). \<not> d \<le>s t) \<and> buckets h' = buckets h
                | Some k \<Rightarrow> k < length (thresholds h) \<and> d \<le>s thresholds h ! k
                    \<and> (\<forall>j<k. \<not> d \<le>s thresholds h ! j)
                    \<and> buckets h' = (buckets h)[k := Suc (buckets h ! k)])"
  proof (cases "first_bucket d (thresholds h)")
    case None
    with Histogram_Update_eq [OF assms, of d] first_bucket_None [of d "thresholds h"]
    show ?thesis by simp
  next
    case (Some k)
    with Histogram_Update_eq [OF assms, of d] first_bucket_Some [OF Some]
    show ?thesis by simp
  qed
next
  have wf: "length (buckets (NewHistogram ts)) = length (thresholds (NewHistogram ts))"
    by (simp add: NewHistogram_def)
  from Histogram_Updates_sum [OF wf, of ds] obtain h' where
    h': "Histogram_Updates ds (NewHistogram ts) = Inr h'"
      "total_h h' = length ds"
      "sum_list (buckets h') = length (filter (in_a_bucket ts) ds)"
    by (auto simp: NewHistogram_def)
  have le: "sum_list (buckets h') \<le> total_h h'"
    using h' by simp
  have eq: "sum_list (buckets h') = total_h h' \<longleftrightarrow> (\<forall>d\<in>set ds. in_a_bucket ts d)"
    using h' by (simp add: filter_all_iff)
  have "ts \<noteq> [] \<longrightarrow>
      (sum_list (buckets h') = total_h h' \<longleftrightarrow> (\<forall>d\<in>set ds. sint d \<le> Max (sint ` set ts)))"
    using eq by (simp add: in_a_bucket_Max)
  with h' le
  show "\<exists>h'. Histogram_Updates ds (NewHistogram ts) = Inr h' \<and> total_h h' = length ds
            \<and> sum_list (buckets h') \<le> total_h h'
            \<and> (ts \<noteq> [] \<longrightarrow>
                 (sum_list (buckets h') = total_h h' \<longleftrightarrow>
                    (\<forall>d\<in>set ds. sint d \<le> Max (sint ` set ts))))"
    by blast
qed

theorem Histogram_Update_first_bucket_witness:
  "length (buckets (NewHistogram [1, 5])) = length (thresholds (NewHistogram [1, 5]))
   \<and> first_bucket 5 [1, 5] = Some 1
   \<and> Histogram_Update 5 (NewHistogram [1, 5])
       = Inr \<lparr>thresholds = [1, 5], buckets = [0, 1], total_h = 1\<rparr>
   \<and> Histogram_Updates [1, 3, 9] (NewHistogram [1, 5])
       = Inr \<lparr>thresholds = [1, 5], buckets = [1, 1], total_h = 3\<rparr>
   \<and> \<not> sint (9 :: int64) \<le> Max (sint ` set [1, 5 :: int64])"
  using Histogram_Update_first_bucket [of "NewHistogram [1, 5]" 5 "[1, 3, 9]" "[1, 5]"]
  by (simp add: NewHistogram_def Histogram_Update_def word_sle_eq)

subsection \<open>Stats\<close>

lemma sint_word_of_int_64:
  "- (2 ^ 63) \<le> k \<Longrightarrow> k < 2 ^ 63 \<Longrightarrow> sint (word_of_int k :: int64) = k"
  by (simp add: sint_sbintrunc' signed_take_bit_int_eq_self)

subsection \<open>Rounding to \<^verbatim>\<open>float64\<close>\<close>

lemma float_exp_bounds:
  assumes "x \<noteq> 0"
  shows "2 powi (float_exp x) \<le> \<bar>x\<bar>" and "\<bar>x\<bar> < 2 powi (float_exp x + 1)"
proof -
  define a where "a = \<bar>x\<bar>"
  have a: "0 < a" using assms by (simp add: a_def)
  have "2 powi (float_exp x) \<le> a \<and> a < 2 powi (float_exp x + 1)"
  proof (cases "1 \<le> a")
    case True
    then have pos: "0 < \<lfloor>a\<rfloor>" by linarith
    define b where "b = bitlen \<lfloor>a\<rfloor>"
    from bitlen_bounds [OF pos] have b: "2 ^ nat (b - 1) \<le> \<lfloor>a\<rfloor>" "\<lfloor>a\<rfloor> < 2 ^ nat b"
      by (simp_all add: b_def)
    from pos have b1: "1 \<le> b" unfolding b_def by (auto simp: bitlen_alt_def)
    have fe: "float_exp x = b - 1"
      using True by (simp add: float_exp_def a_def [symmetric] b_def Let_def)
    from b(1) have "real_of_int (2 ^ nat (b - 1)) \<le> real_of_int \<lfloor>a\<rfloor>"
      by (simp only: of_int_le_iff)
    also have "\<dots> \<le> a" by simp
    finally have l: "2 powi (b - 1) \<le> a"
      using b1 by (simp add: power_int_nonneg_exp)
    from b(2) have "a < real_of_int (2 ^ nat b)"
      by (simp add: floor_less_iff)
    then have u: "a < 2 powi b"
      using b1 by (simp add: power_int_nonneg_exp)
    from l u fe show ?thesis by simp
  next
    case False
    then have a1: "a < 1" by simp
    define y where "y = 1 / a"
    have y1: "1 < y" using a a1 by (simp add: y_def)
    then have pos: "0 < \<lfloor>y\<rfloor>" by linarith
    define b where "b = bitlen \<lfloor>y\<rfloor>"
    define k where "k = b - 1"
    from bitlen_bounds [OF pos] have b: "2 ^ nat (b - 1) \<le> \<lfloor>y\<rfloor>" "\<lfloor>y\<rfloor> < 2 ^ nat b"
      by (simp_all add: b_def)
    from pos have b1: "1 \<le> b" unfolding b_def by (auto simp: bitlen_alt_def)
    then have k0: "0 \<le> k" by (simp add: k_def)
    from b(1) have "real_of_int (2 ^ nat (b - 1)) \<le> real_of_int \<lfloor>y\<rfloor>"
      by (simp only: of_int_le_iff)
    also have "\<dots> \<le> y" by simp
    finally have l: "2 powi k \<le> y"
      using b1 by (simp add: power_int_nonneg_exp k_def)
    from b(2) have "y < real_of_int (2 ^ nat b)"
      by (simp add: floor_less_iff)
    then have u: "y < 2 powi (k + 1)"
      using b1 by (simp add: power_int_nonneg_exp k_def)
    have pk: "0 < (2::real) powi k" "0 < (2::real) powi (k + 1)" by simp_all
    from l have al: "a * 2 powi k \<le> 1"
      using a pk by (simp add: y_def field_simps)
    from u have au: "1 < a * 2 powi (k + 1)"
      using a pk by (simp add: y_def field_simps)
    have fe: "float_exp x = (if a * 2 powi k = 1 then - k else - k - 1)"
      using False by (simp add: float_exp_def a_def [symmetric] b_def k_def y_def Let_def)
    show ?thesis
    proof (cases "a * 2 powi k = 1")
      case True
      then have "a = 2 powi (- k)"
        using pk by (simp add: power_int_minus field_simps)
      moreover have "(2::real) powi (- k) < 2 powi (- k + 1)"
        by (rule power_int_strict_increasing) simp_all
      ultimately show ?thesis using fe True by simp
    next
      case False
      with al have "a * 2 powi k < 1" by simp
      then have u': "a < 2 powi (- k)"
        using pk by (simp add: power_int_minus field_simps)
      from au pk(2) have "1 / 2 powi (k + 1) < a"
        by (simp only: pos_divide_less_eq)
      then have "2 powi (- (k + 1)) < a"
        by (simp only: power_int_minus_divide)
      moreover have "- (k + 1) = - k - 1" by simp
      ultimately have "2 powi (- k - 1) \<le> a" by simp
      with u' fe False show ?thesis by simp
    qed
  qed
  then show "2 powi (float_exp x) \<le> \<bar>x\<bar>" and "\<bar>x\<bar> < 2 powi (float_exp x + 1)"
    by (simp_all add: a_def)
qed

lemma float_exp_less:
  assumes "x \<noteq> 0" and "\<bar>x\<bar> < 2 powi k"
  shows "float_exp x < k"
proof (rule ccontr)
  assume "\<not> float_exp x < k"
  then have "k \<le> float_exp x" by simp
  then have "(2::real) powi k \<le> 2 powi (float_exp x)"
    by (rule power_int_increasing) simp
  with float_exp_bounds(1) [OF assms(1)] assms(2) show False by simp
qed


lemma round_half_even_error: "\<bar>real_of_int (round_half_even y) - y\<bar> \<le> 1 / 2"
  unfolding round_half_even_def Let_def by (auto simp: abs_if) linarith+

lemma round_half_even_near:
  assumes "\<bar>y - real_of_int n\<bar> < 1 / 2"
  shows "round_half_even y = n"
proof -
  from round_half_even_error [of y] assms
  have "\<bar>real_of_int (round_half_even y) - real_of_int n\<bar> < 1" by linarith
  then have "\<bar>real_of_int (round_half_even y - n)\<bar> < 1" by simp
  then have "\<bar>round_half_even y - n\<bar> < 1"
    by (metis of_int_abs of_int_less_1_iff)
  then show ?thesis by simp
qed


lemma round64_of_int:
  assumes "\<bar>n\<bar> < 2 ^ 53"
  shows "round64 (real_of_int n) = real_of_int n"
proof (cases "n = 0")
  case True
  then show ?thesis by (simp add: round64_def)
next
  case False
  define x where "x = real_of_int n"
  define e where "e = float_exp x - 52"
  have x0: "x \<noteq> 0" using False by (simp add: x_def)
  from assms have "\<bar>x\<bar> < 2 ^ 53"
    unfolding x_def by (metis of_int_abs of_int_less_iff of_int_numeral of_int_power)
  then have "\<bar>x\<bar> < 2 powi 53" by simp
  from float_exp_less [OF x0 this] have e0: "e \<le> 0" by (simp add: e_def)
  then have pe: "(2::real) powi e = 1 / 2 ^ nat (- e)"
    by (simp add: power_int_def field_simps)
  have "x / 2 powi e = real_of_int (n * 2 ^ nat (- e))"
    by (simp add: pe x_def)
  then have "round_half_even (x / 2 powi e) = n * 2 ^ nat (- e)"
    by (intro round_half_even_near) simp
  then have "round64 x = real_of_int (n * 2 ^ nat (- e)) * 2 powi e"
    using x0 by (simp add: round64_def e_def [symmetric] Let_def)
  also have "\<dots> = x" by (simp add: pe x_def)
  finally show ?thesis by (simp add: x_def)
qed

subsection \<open>\<^verbatim>\<open>Duration.Seconds\<close>\<close>

text \<open>A whole number of seconds is its own \<^verbatim>\<open>float64\<close>.\<close>

lemma Duration_Seconds_whole:
  assumes "sint d = n * 1000000000"
  shows "Duration_Seconds d = real_of_int n"
proof -
  have q: "sint d sdiv 1000000000 = n" and r: "sint d smod 1000000000 = 0"
    by (simp_all add: assms signed_divide_int_def signed_modulo_int_def abs_mult sgn_mult
        sgn_mult_abs)
  have "- 9223372036854775808 \<le> sint d" "sint d < 9223372036854775808"
    using sint_ge [of d] sint_lt [of d] by simp_all
  with assms have "\<bar>n\<bar> < 2 ^ 53" by simp
  then have n: "round64 (real_of_int n) = real_of_int n" by (rule round64_of_int)
  have z: "round64 0 = 0" by (simp add: round64_def)
  show ?thesis
    by (simp add: Duration_Seconds_def Let_def q r z n)
qed




lemma window_elapsed_whole:
  assumes "sint (windowSize s) = w * 1000000000"
    and "sint (Time_Sub now (windowStart s)) = e * 1000000000"
  shows "window_elapsed now s \<longleftrightarrow> w < e"
  by (simp add: window_elapsed_def Duration_Seconds_whole [OF assms(1)]
      Duration_Seconds_whole [OF assms(2)])

lemma sint_Time_Sub:
  "- (2 ^ 63) \<le> t - u \<Longrightarrow> t - u \<le> 2 ^ 63 - 1 \<Longrightarrow> sint (Time_Sub t u) = t - u"
  using sint_word_of_int_64 [of "t - u"]
  by (simp add: Time_Sub_def Let_def del: of_int_diff)

lemma Stats_Update_eq:
  assumes "Histogram_Update d (histogram s) = Inr h"
  shows "Stats_Update now1 now2 d s =
     Inr (if window_elapsed now1 s
          then \<lparr>windowSize = windowSize s, windowStart = now2, window = Window_zero,
                lastWindow = Window_Update d (window s), totals = Window_Update d (totals s),
                histogram = h\<rparr>
          else \<lparr>windowSize = windowSize s, windowStart = windowStart s,
                window = Window_Update d (window s), lastWindow = lastWindow s,
                totals = Window_Update d (totals s), histogram = h\<rparr>)"
  using assms
  by (simp add: Stats_Update_def Let_def window_elapsed_def Window_Reset_eq)

lemma Stats_init_buckets:
  "length (buckets (histogram (Stats_init window_flag now)))
     = length (thresholds (histogram (Stats_init window_flag now)))"
  by (simp add: Stats_init_def NewHistogram_def)

lemma Stats_Update_buckets:
  assumes "length (buckets (histogram s)) = length (thresholds (histogram s))"
    and "Stats_Update now1 now2 d s = Inr s'"
  shows "length (buckets (histogram s')) = length (thresholds (histogram s'))"
proof -
  from Histogram_Update_sum [OF assms(1), of d] obtain h' where
    h': "Histogram_Update d (histogram s) = Inr h'"
      "length (buckets h') = length (thresholds h')"
    by blast
  from Stats_Update_eq [OF h'(1), of now1 now2] assms(2)
  have "histogram s' = h'"
    by (cases "window_elapsed now1 s") auto
  with h'(2) show ?thesis by simp
qed




subsection \<open>No sample, no change\<close>

lemma Stats_String_state: "snd (Stats_String s) = s"
  by (simp add: Stats_String_def Window_String_def Let_def)

text \<open>
  C7. A run of calls on the engine without an \<^verbatim>\<open>Update\<close>, whatever the clock reads at each
  of them, leaves the engine as it was: \<^verbatim>\<open>String\<close> changes nothing, and nothing but
  \<^verbatim>\<open>Update\<close> looks at the clock, so a window does not roll over while no sample arrives.
\<close>

theorem engine_unchanged_without_samples:
  assumes "\<forall>c\<in>set cs. snd (snd c) = CallString"
  shows "engine_calls cs s = Inr s"
  using assms
proof (induction cs)
  case Nil
  then show ?case by simp
next
  case (Cons c cs)
  obtain now1 now2 e where c: "c = (now1, now2, e)" by (cases c)
  with Cons.prems have "e = CallString" by simp
  with c Cons show ?case by (simp add: Stats_String_state)
qed

theorem engine_unchanged_without_samples_witness:
  "window_elapsed 6000000000 (Stats_init 5 0)
   \<and> engine_calls [(6000000000, 6000000000, CallString), (9000000000, 9000000000, CallString)]
        (Stats_init 5 0) = Inr (Stats_init 5 0)"
proof -
  have el: "window_elapsed 6000000000 (Stats_init 5 0)"
    using window_elapsed_whole [of "Stats_init 5 0" 5 6000000000 6]
    by (simp add: Stats_init_def sint_Time_Sub)
  have a: "\<forall>c\<in>set [(6000000000 :: Time, 6000000000 :: Time, CallString),
      (9000000000, 9000000000, CallString)]. snd (snd c) = CallString"
    by simp
  from engine_unchanged_without_samples [OF a, of "Stats_init 5 0"] el show ?thesis
    by blast
qed

subsection \<open>Samples in whole milliseconds\<close>

lemma sdiv_million_bounds:
  fixes n :: int
  shows "\<bar>n sdiv 1000000\<bar> * 1000000 \<le> \<bar>n\<bar>"
    and "n = (n sdiv 1000000) * 1000000 + n smod 1000000"
    and "\<bar>n smod 1000000\<bar> < 1000000"
    and "0 \<le> n \<Longrightarrow> 0 \<le> n smod 1000000"
    and "n \<le> 0 \<Longrightarrow> n smod 1000000 \<le> 0"
proof -
  have "\<bar>n\<bar> div 1000000 * 1000000 \<le> \<bar>n\<bar>"
    using pos_mod_sign [of 1000000 "\<bar>n\<bar>"]
    by (simp add: minus_mod_eq_div_mult [symmetric])
  moreover have "\<bar>n sdiv 1000000\<bar> = \<bar>n\<bar> div 1000000"
    by (simp add: signed_divide_int_def abs_mult sgn_if)
  ultimately show "\<bar>n sdiv 1000000\<bar> * 1000000 \<le> \<bar>n\<bar>"
    by simp
  show "n = (n sdiv 1000000) * 1000000 + n smod 1000000"
    by (simp add: sdiv_mult_smod_eq)
  show "\<bar>n smod 1000000\<bar> < 1000000"
    by (simp add: signed_modulo_int_def abs_mult)
  show "0 \<le> n \<Longrightarrow> 0 \<le> n smod 1000000"
    by (simp add: signed_modulo_int_def sgn_if)
  show "n \<le> 0 \<Longrightarrow> n smod 1000000 \<le> 0"
    by (simp add: signed_modulo_int_def sgn_if)
qed

lemma sint_Duration_Milliseconds:
  "sint (Duration_Milliseconds d) = sint d sdiv 1000000"
proof -
  have "- 9223372036854775808 \<le> sint d" "sint d < 9223372036854775808"
    using sint_ge [of d] sint_lt [of d] by simp_all
  with sdiv_million_bounds(1) [of "sint d"]
  have "- 9223372036854775808 \<le> sint d sdiv 1000000" "sint d sdiv 1000000 < 9223372036854775808"
    by linarith+
  then show ?thesis
    unfolding Duration_Milliseconds_def by (intro sint_word_of_int_64) simp_all
qed

lemma Duration_Milliseconds_sub_ms:
  assumes "\<bar>sint d\<bar> < 1000000"
  shows "Duration_Milliseconds d = 0"
proof -
  from assms have "\<bar>sint d\<bar> div 1000000 = 0" by simp
  then show ?thesis
    by (simp add: Duration_Milliseconds_def signed_divide_int_def)
qed

text \<open>
  C10. \<^verbatim>\<open>model.Update\<close> applies a sample \<open>d\<close> (nanoseconds) to the engine as
  \<^verbatim>\<open>d.Milliseconds()\<close>, the quotient of \<open>d\<close> by \<open>10\<^sup>6\<close> rounded towards zero: the rest \<open>r\<close>
  is below a millisecond and has the sign of \<open>d\<close>. A sample below one millisecond is
  applied as 0: the totals keep their sum, and the counts of the totals, of the window (or
  of the window just rolled over) and of the histogram grow by one.
\<close>

theorem model_Update_truncates_sample:
  assumes "length (buckets (histogram (stats m))) = length (thresholds (histogram (stats m)))"
  shows "\<exists>s' r. model_Update now1 now2 (DurationMsg d) m = Inr (m\<lparr>stats := s'\<rparr>, Tick)
      \<and> Stats_Update now1 now2 (Duration_Milliseconds d) (stats m) = Inr s'
      \<and> sint d = sint (Duration_Milliseconds d) * 1000000 + r \<and> \<bar>r\<bar> < 1000000
      \<and> (0 \<le> sint d \<longrightarrow> 0 \<le> r) \<and> (sint d \<le> 0 \<longrightarrow> r \<le> 0)
      \<and> totals s' = Window_Update (Duration_Milliseconds d) (totals (stats m))
      \<and> (if window_elapsed now1 (stats m) then lastWindow s' else window s')
           = Window_Update (Duration_Milliseconds d) (window (stats m))
      \<and> Histogram_Update (Duration_Milliseconds d) (histogram (stats m)) = Inr (histogram s')
      \<and> (\<bar>sint d\<bar> < 1000000 \<longrightarrow>
           Duration_Milliseconds d = 0
           \<and> Total_w (totals s') = Total_w (totals (stats m))
           \<and> Count (totals s') = Suc (Count (totals (stats m)))
           \<and> Count (if window_elapsed now1 (stats m) then lastWindow s' else window s')
                = Suc (Count (window (stats m)))
           \<and> total_h (histogram s') = Suc (total_h (histogram (stats m))))"
proof -
  let ?ms = "Duration_Milliseconds d"
  from Histogram_Update_eq [OF assms, of ?ms] obtain h' where
    h': "Histogram_Update ?ms (histogram (stats m)) = Inr h'"
      "total_h h' = Suc (total_h (histogram (stats m)))"
    by simp
  define s' where "s' = (if window_elapsed now1 (stats m)
          then \<lparr>windowSize = windowSize (stats m), windowStart = now2, window = Window_zero,
                lastWindow = Window_Update ?ms (window (stats m)),
                totals = Window_Update ?ms (totals (stats m)), histogram = h'\<rparr>
          else \<lparr>windowSize = windowSize (stats m), windowStart = windowStart (stats m),
                window = Window_Update ?ms (window (stats m)), lastWindow = lastWindow (stats m),
                totals = Window_Update ?ms (totals (stats m)), histogram = h'\<rparr>)"
  have upd: "Stats_Update now1 now2 ?ms (stats m) = Inr s'"
    unfolding s'_def by (rule Stats_Update_eq [OF h'(1)])
  then have mu: "model_Update now1 now2 (DurationMsg d) m = Inr (m\<lparr>stats := s'\<rparr>, Tick)"
    by simp
  define r where "r = sint d smod 1000000"
  have r: "sint d = sint ?ms * 1000000 + r" "\<bar>r\<bar> < 1000000"
    "0 \<le> sint d \<longrightarrow> 0 \<le> r" "sint d \<le> 0 \<longrightarrow> r \<le> 0"
    using sdiv_million_bounds [of "sint d"]
    by (simp_all add: r_def sint_Duration_Milliseconds)
  have fields: "totals s' = Window_Update ?ms (totals (stats m))"
    "(if window_elapsed now1 (stats m) then lastWindow s' else window s')
       = Window_Update ?ms (window (stats m))"
    "histogram s' = h'"
    by (simp_all add: s'_def)
  have small: "\<bar>sint d\<bar> < 1000000 \<longrightarrow>
           ?ms = 0
           \<and> Total_w (totals s') = Total_w (totals (stats m))
           \<and> Count (totals s') = Suc (Count (totals (stats m)))
           \<and> Count (if window_elapsed now1 (stats m) then lastWindow s' else window s')
                = Suc (Count (window (stats m)))
           \<and> total_h (histogram s') = Suc (total_h (histogram (stats m)))"
    using fields h'(2) by (simp add: Duration_Milliseconds_sub_ms Window_Update_simps)
  have hs: "Histogram_Update ?ms (histogram (stats m)) = Inr (histogram s')"
    using h'(1) fields(3) by simp
  show ?thesis
    by (intro exI [of _ s'] exI [of _ r] conjI) (fact mu upd r fields hs small)+
qed

theorem model_Update_truncates_sample_witness:
  "length (buckets (histogram (Stats_init 5 0))) = length (thresholds (histogram (Stats_init 5 0)))
   \<and> \<bar>sint (400000 :: Duration)\<bar> < 1000000
   \<and> \<not> window_elapsed 1000000000 (Stats_init 5 0)
   \<and> Duration_Milliseconds 400000 = 0
   \<and> model_Update 1000000000 1000000000 (DurationMsg 400000)
        \<lparr>host = ''google.co.uk'', interval = 1, pings = Some 0, errs = Some 1,
         stats = Stats_init 5 0\<rparr>
       = Inr (\<lparr>host = ''google.co.uk'', interval = 1, pings = Some 0, errs = Some 1,
              stats = \<lparr>windowSize = 5000000000, windowStart = 0,
                window = \<lparr>Min_w = 0, Max_w = 0, Total_w = 0, Count = 1\<rparr>,
                lastWindow = Window_zero,
                totals = \<lparr>Min_w = 0, Max_w = 0, Total_w = 0, Count = 1\<rparr>,
                histogram = \<lparr>thresholds = default_thresholds,
                              buckets = [1, 0, 0, 0, 0, 0, 0, 0, 0, 0], total_h = 1\<rparr>\<rparr>\<rparr>, Tick)"
proof -
  have wf: "length (buckets (histogram (stats
      \<lparr>host = ''google.co.uk'', interval = 1, pings = Some 0, errs = Some 1,
       stats = Stats_init 5 0\<rparr>))) = length (thresholds (histogram (stats
      \<lparr>host = ''google.co.uk'', interval = 1, pings = Some 0, errs = Some 1,
       stats = Stats_init 5 0\<rparr>)))"
    by (simp add: Stats_init_def NewHistogram_def)
  have ms: "Duration_Milliseconds 400000 = 0"
    by (simp add: Duration_Milliseconds_def signed_divide_int_def)
  have el: "\<not> window_elapsed 1000000000 (Stats_init 5 0)"
    using window_elapsed_whole [of "Stats_init 5 0" 5 1000000000 1]
    by (simp add: Stats_init_def sint_Time_Sub)
  have h: "Histogram_Update 0 (histogram (Stats_init 5 0)) =
      Inr \<lparr>thresholds = default_thresholds, buckets = [1, 0, 0, 0, 0, 0, 0, 0, 0, 0], total_h = 1\<rparr>"
    by (simp add: Stats_init_def NewHistogram_def Histogram_Update_def default_thresholds_def
        word_sle_eq)
  have w: "Window_Update 0 Window_zero = \<lparr>Min_w = 0, Max_w = 0, Total_w = 0, Count = 1\<rparr>"
    by (simp add: Window_Update_def Window_zero_def word_sless_alt)
  from model_Update_truncates_sample [OF wf, of 1000000000 1000000000 400000]
  obtain s' where s': "model_Update 1000000000 1000000000 (DurationMsg 400000)
        \<lparr>host = ''google.co.uk'', interval = 1, pings = Some 0, errs = Some 1,
         stats = Stats_init 5 0\<rparr>
       = Inr (\<lparr>host = ''google.co.uk'', interval = 1, pings = Some 0, errs = Some 1,
               stats = Stats_init 5 0\<rparr>\<lparr>stats := s'\<rparr>, Tick)"
    "Stats_Update 1000000000 1000000000 (Duration_Milliseconds 400000) (Stats_init 5 0) = Inr s'"
    by auto
  from s'(2) have "s' = \<lparr>windowSize = 5000000000, windowStart = 0,
                window = \<lparr>Min_w = 0, Max_w = 0, Total_w = 0, Count = 1\<rparr>,
                lastWindow = Window_zero,
                totals = \<lparr>Min_w = 0, Max_w = 0, Total_w = 0, Count = 1\<rparr>,
                histogram = \<lparr>thresholds = default_thresholds,
                              buckets = [1, 0, 0, 0, 0, 0, 0, 0, 0, 0], total_h = 1\<rparr>\<rparr>"
    using Stats_Update_eq [OF h, of 1000000000 1000000000] el w
    by (simp add: ms Stats_init_def)
  with s'(1) wf ms el show ?thesis by simp
qed

end
